theory Spec2Isabelle
  imports Main
begin

section \<open>The crasher test fixture (client/cros/crash/crasher/crasher.cc)\<close>

text \<open>
  The program prints its pid, selects a mode from its arguments, optionally sends one
  byte over a Unix datagram socket, and then calls \<open>recbomb(16)\<close>. Everything it does
  beyond computing values is made explicit here: the diagnostic stream and the system
  calls are recorded, in program order, as a list of events, and a call of \<open>exit\<close> is a
  value of the control type below.
\<close>

subsection \<open>Data\<close>

text \<open>
  A C string is modelled by its contents, the \<open>char\<close>s before the terminating NUL.
  \<open>NL\<close> is the character \<open>'\n'\<close> and \<open>NUL\<close> is \<open>'\0'\<close>.
\<close>

abbreviation NL :: char where
  "NL \<equiv> CHR 0x0A"

abbreviation NUL :: char where
  "NUL \<equiv> CHR 0x00"

type_synonym errno = int

text \<open>\<open>struct sockaddr_un\<close>: the address family and the fixed-size path buffer.\<close>

record sockaddr_un =
  sun_family :: int
  sun_path :: string

text \<open>
  \<open>struct msghdr\<close>. \<open>msg_name = None\<close> is the null pointer. Each element of
  \<open>msg_iov\<close> is the memory one \<open>iovec\<close> designates (\<open>iov_len\<close> bytes from
  \<open>iov_base\<close>). The members after \<open>msg_iovlen\<close> are value-initialised by the
  aggregate initialiser \<open>{ NULL, 0, &data, 1 }\<close>.
\<close>

record msghdr =
  msg_name :: "string option"
  msg_namelen :: nat
  msg_iov :: "string list"
  msg_iovlen :: nat
  msg_control :: "string option"
  msg_controllen :: nat
  msg_flags :: int

text \<open>
  What the process does to the outside world, in order. A system call is recorded with
  its arguments and the value it returned.
\<close>

datatype event =
    Stderr string
  | Sys_socket int int int int
  | Sys_connect int sockaddr_un nat int
  | Sys_sendmsg int msghdr int int
  | Sys_close int
  | Call_recbomb int

text \<open>
  The operating system and the platform headers, as far as the program uses them. Each
  system call answers with its return value and the value of \<open>errno\<close> after the call.
  \<open>sizeof_sun_path\<close> is \<open>sizeof(address.sun_path)\<close> and \<open>sizeof_sockaddr_un\<close> is
  \<open>sizeof(address)\<close>; both come from \<open><sys/un.h>\<close>, as do the constants \<open>AF_UNIX\<close>
  and \<open>SOCK_DGRAM\<close> from \<open><sys/socket.h>\<close>.
\<close>

record os =
  getpid :: int
  socket :: "int \<Rightarrow> int \<Rightarrow> int \<Rightarrow> int \<times> errno"
  connect :: "int \<Rightarrow> sockaddr_un \<Rightarrow> nat \<Rightarrow> int \<times> errno"
  sendmsg :: "int \<Rightarrow> msghdr \<Rightarrow> int \<Rightarrow> int \<times> errno"
  strerror :: "errno \<Rightarrow> string"
  AF_UNIX :: int
  SOCK_DGRAM :: int
  sizeof_sun_path :: nat
  sizeof_sockaddr_un :: nat

text \<open>
  How a function call ends: it returns a value, it calls \<open>exit\<close> with a status, the
  process is killed by a fault, or it runs into undefined behaviour (a write outside a
  buffer).
\<close>

datatype 'a ctl = Return 'a | Exit int | Fault | Undefined

text \<open>
  The two functions the program calls that are defined in another translation unit
  (\<open>int recbomb(int n)\<close> and \<open>extern int DefeatTailOptimizationForCrasher()\<close>). They
  are parameters of the model: how a call \<open>recbomb(n)\<close> ends, and the value the
  other function returns.
\<close>

record ext =
  recbomb :: "int \<Rightarrow> int ctl"
  DefeatTailOptimizationForCrasher :: int

subsection \<open>Library functions\<close>

text \<open>
  \<open>strcmp\<close>: the difference of the first pair of differing bytes, read as
  \<open>unsigned char\<close>; the end of a list is the terminating NUL, and the comparison stops
  at a NUL.
\<close>

fun strcmp :: "string \<Rightarrow> string \<Rightarrow> int" where
  "strcmp [] [] = 0"
| "strcmp [] (b # bs) = - int (of_char b)"
| "strcmp (a # as) [] = int (of_char a)"
| "strcmp (a # as) (b # bs) =
     (if a \<noteq> b then int (of_char a) - int (of_char b)
      else if a = NUL then 0
      else strcmp as bs)"

text \<open>
  \<open>strncpy(dest, src, n)\<close> writes exactly \<open>n\<close> bytes to \<open>dest\<close>: the first \<open>n\<close>
  characters of \<open>src\<close>, padded with NULs when \<open>src\<close> is shorter. The bytes of
  \<open>dest\<close> from index \<open>n\<close> on are untouched. Writing more bytes than \<open>dest\<close> holds is
  undefined behaviour, the result \<open>None\<close>.
\<close>

definition strncpy :: "string \<Rightarrow> string \<Rightarrow> nat \<Rightarrow> string option" where
  "strncpy dest src n =
     (if n \<le> length dest
      then Some (take n src @ replicate (n - length src) NUL @ drop n dest)
      else None)"

text \<open>\<open>operator<<\<close> on an \<open>int\<close>: the decimal digits, with a minus sign when negative.\<close>

fun string_of_nat :: "nat \<Rightarrow> string" where
  "string_of_nat n =
     (if n < 10 then [''0123456789'' ! n]
      else string_of_nat (n div 10) @ [''0123456789'' ! (n mod 10)])"

declare string_of_nat.simps [simp del]

definition string_of_int :: "int \<Rightarrow> string" where
  "string_of_int i =
     (if i < 0 then CHR ''-'' # string_of_nat (nat (- i)) else string_of_nat (nat i))"

subsection \<open>SendPid\<close>

text \<open>
  The local \<open>struct Socket\<close>: its constructor calls \<open>socket(AF_UNIX, SOCK_DGRAM, 0)\<close>
  and keeps the result in \<open>fd\<close>; its destructor closes \<open>fd\<close> unless it is \<open>-1\<close>.
\<close>

definition Socket_ctor :: "os \<Rightarrow> event list \<times> int \<times> errno" where
  "Socket_ctor os =
     (let (fd, e) = socket os (AF_UNIX os) (SOCK_DGRAM os) 0
      in ([Sys_socket (AF_UNIX os) (SOCK_DGRAM os) 0 fd], fd, e))"

definition Socket_dtor :: "int \<Rightarrow> event list" where
  "Socket_dtor fd = (if fd \<noteq> - 1 then [Sys_close fd] else [])"

text \<open>
  Lines 60 and 61: \<open>address\<close> is initialised with the family \<open>AF_UNIX\<close> and
  zeros in every other byte, then \<open>strncpy\<close> copies at most
  \<open>sizeof(address.sun_path) - 1\<close> characters of the path into \<open>sun_path\<close>. An
  array has at least one element, so the subtraction does not wrap.
\<close>

definition SendPid_address :: "os \<Rightarrow> string \<Rightarrow> sockaddr_un option" where
  "SendPid_address os socket_path =
     (let address = \<lparr>sun_family = AF_UNIX os,
                     sun_path = replicate (sizeof_sun_path os) NUL\<rparr>
      in case strncpy (sun_path address) socket_path (sizeof_sun_path os - 1) of
           None \<Rightarrow> None
         | Some p \<Rightarrow> Some (address\<lparr>sun_path := p\<rparr>))"

text \<open>
  Lines 68 to 70: the message is one \<open>iovec\<close> over the single byte \<open>zero\<close>, with no
  destination address and no control data.
\<close>

definition SendPid_msg :: msghdr where
  "SendPid_msg =
     (let zero = NUL;
          data = [zero]
      in \<lparr>msg_name = None, msg_namelen = 0, msg_iov = [data], msg_iovlen = 1,
          msg_control = None, msg_controllen = 0, msg_flags = 0\<rparr>)"

text \<open>
  The body of \<open>SendPid\<close> after the declaration of \<open>sock\<close>, lines 55 to 77. \<open>errno\<close>
  is read right after the call that failed.
\<close>

definition SendPid_body :: "os \<Rightarrow> int \<Rightarrow> errno \<Rightarrow> string \<Rightarrow> event list \<times> bool ctl" where
  "SendPid_body os fd e0 socket_path =
     (if fd = - 1 then
        ([Stderr (''socket() failed: '' @ strerror os e0 @ [NL])], Return False)
      else
        case SendPid_address os socket_path of
          None \<Rightarrow> ([], Undefined)
        | Some address \<Rightarrow>
            let (r1, e1) = connect os fd address (sizeof_sockaddr_un os);
                t1 = [Sys_connect fd address (sizeof_sockaddr_un os) r1]
            in if r1 = - 1 then
                 (t1 @ [Stderr (''connect() failed: '' @ strerror os e1 @ [NL])],
                  Return False)
               else
                 let msg = SendPid_msg;
                     (r2, e2) = sendmsg os fd msg 0;
                     t2 = [Sys_sendmsg fd msg 0 r2]
                 in if r2 = - 1 then
                      (t1 @ t2 @ [Stderr (''sendmsg() failed: '' @ strerror os e2 @ [NL])],
                       Return False)
                    else (t1 @ t2, Return True))"

text \<open>
  \<open>SendPid\<close>: construct \<open>sock\<close>, run the body, and destroy \<open>sock\<close> on the way out,
  whichever \<open>return\<close> was taken.
\<close>

definition SendPid :: "os \<Rightarrow> string \<Rightarrow> event list \<times> bool ctl" where
  "SendPid os socket_path =
     (let (t0, fd, e0) = Socket_ctor os;
          (t1, r) = SendPid_body os fd e0 socket_path
      in (t0 @ t1 @ Socket_dtor fd, r))"

subsection \<open>PrepareBelow and main\<close>

definition PrepareBelow :: "os \<Rightarrow> int \<Rightarrow> string list \<Rightarrow> event list \<times> unit ctl" where
  "PrepareBelow os argc argv =
     (let t0 = [Stderr (''pid='' @ string_of_int (getpid os) @ [NL])] in
      if argc = 2 \<and> strcmp (argv ! 1) ''--nocrash'' = 0 then
        (t0 @ [Stderr (''Doing normal exit'' @ [NL])], Exit 0)
      else if argc = 3 \<and> strcmp (argv ! 1) ''--sendpid'' = 0 then
        (case SendPid os (argv ! 2) of
           (t1, Return ok) \<Rightarrow>
             if \<not> ok then (t0 @ t1, Exit 0)
             else (t0 @ t1 @ [Stderr (''Crashing as requested.'' @ [NL])], Return ())
         | (t1, Exit c) \<Rightarrow> (t0 @ t1, Exit c)
         | (t1, Fault) \<Rightarrow> (t0 @ t1, Fault)
         | (t1, Undefined) \<Rightarrow> (t0 @ t1, Undefined))
      else (t0 @ [Stderr (''Crashing as requested.'' @ [NL])], Return ()))"

text \<open>
  The type \<open>int\<close> of the program is 32 bits wide, and an addition whose result does
  not fit is undefined behaviour.
\<close>

definition INT_MIN :: int where
  "INT_MIN = - (2 ^ 31)"

definition INT_MAX :: int where
  "INT_MAX = 2 ^ 31 - 1"

definition int_add :: "int \<Rightarrow> int \<Rightarrow> int ctl" where
  "int_add a b =
     (if INT_MIN \<le> a + b \<and> a + b \<le> INT_MAX then Return (a + b) else Undefined)"

text \<open>
  \<open>main\<close>: when \<open>PrepareBelow\<close> returns, \<open>recbomb(16)\<close> is called, and its result
  plus that of \<open>DefeatTailOptimizationForCrasher()\<close> is returned. The call of
  \<open>recbomb\<close> is recorded; \<open>DefeatTailOptimizationForCrasher\<close> only yields a value,
  so the order in which the two operands are evaluated does not show.
\<close>

definition main :: "ext \<Rightarrow> os \<Rightarrow> int \<Rightarrow> string list \<Rightarrow> event list \<times> int ctl" where
  "main x os argc argv =
     (case PrepareBelow os argc argv of
        (t, Return u) \<Rightarrow>
          (t @ [Call_recbomb 16],
           case recbomb x 16 of
             Return r \<Rightarrow> int_add r (DefeatTailOptimizationForCrasher x)
           | Exit c \<Rightarrow> Exit c
           | Fault \<Rightarrow> Fault
           | Undefined \<Rightarrow> Undefined)
      | (t, Exit c) \<Rightarrow> (t, Exit c)
      | (t, Fault) \<Rightarrow> (t, Fault)
      | (t, Undefined) \<Rightarrow> (t, Undefined))"

text \<open>
  How the process ends. A return from \<open>main\<close> with the value \<open>r\<close> is a call
  \<open>exit(r)\<close>, and of the argument of \<open>exit\<close> the low eight bits are the exit status
  of the process. So the result is never \<open>Return\<close>: it is \<open>Exit\<close> with a status
  from 0 to 255, a fault, or undefined behaviour.
\<close>

definition process_end :: "int ctl \<Rightarrow> int ctl" where
  "process_end c =
     (case c of
        Return r \<Rightarrow> Exit (r mod 256)
      | Exit s \<Rightarrow> Exit (s mod 256)
      | Fault \<Rightarrow> Fault
      | Undefined \<Rightarrow> Undefined)"

text \<open>
  The process from start to end: \<open>argv\<close> holds the program name and the arguments,
  and \<open>argc\<close> is their number.
\<close>

definition crasher :: "ext \<Rightarrow> os \<Rightarrow> string list \<Rightarrow> event list \<times> int ctl" where
  "crasher x os argv =
     (case main x os (int (length argv)) argv of (t, c) \<Rightarrow> (t, process_end c))"

subsection \<open>Observations on a run\<close>

text \<open>The lines written to standard error, in order.\<close>

fun stderr_lines :: "event list \<Rightarrow> string list" where
  "stderr_lines [] = []"
| "stderr_lines (Stderr s # es) = s # stderr_lines es"
| "stderr_lines (e # es) = stderr_lines es"

text \<open>The starting depths the recursive fault generator was invoked with.\<close>

fun recbomb_calls :: "event list \<Rightarrow> int list" where
  "recbomb_calls [] = []"
| "recbomb_calls (Call_recbomb n # es) = n # recbomb_calls es"
| "recbomb_calls (e # es) = recbomb_calls es"

text \<open>The calls of \<open>connect\<close> and of \<open>sendmsg\<close>, with arguments and return value.\<close>

fun connect_calls :: "event list \<Rightarrow> (int \<times> sockaddr_un \<times> nat \<times> int) list" where
  "connect_calls [] = []"
| "connect_calls (Sys_connect fd a n r # es) = (fd, a, n, r) # connect_calls es"
| "connect_calls (e # es) = connect_calls es"

fun sendmsg_calls :: "event list \<Rightarrow> (int \<times> msghdr \<times> int \<times> int) list" where
  "sendmsg_calls [] = []"
| "sendmsg_calls (Sys_sendmsg fd msg flags r # es) = (fd, msg, flags, r) # sendmsg_calls es"
| "sendmsg_calls (e # es) = sendmsg_calls es"

text \<open>
  The datagrams that went out: the payload of every \<open>sendmsg\<close> that did not return
  \<open>-1\<close>, which is the bytes its first \<open>msg_iovlen\<close> buffers designate.
\<close>

fun transmitted :: "event list \<Rightarrow> string list" where
  "transmitted [] = []"
| "transmitted (Sys_sendmsg fd msg flags r # es) =
     (if r \<noteq> - 1 then concat (take (msg_iovlen msg) (msg_iov msg)) # transmitted es
      else transmitted es)"
| "transmitted (e # es) = transmitted es"

text \<open>
  The descriptors \<open>socket\<close> handed out (a return value other than \<open>-1\<close>), and the
  descriptors passed to \<open>close\<close>.
\<close>

fun opened :: "event list \<Rightarrow> int list" where
  "opened [] = []"
| "opened (Sys_socket d t p r # es) = (if r \<noteq> - 1 then r # opened es else opened es)"
| "opened (e # es) = opened es"

fun closed :: "event list \<Rightarrow> int list" where
  "closed [] = []"
| "closed (Sys_close fd # es) = fd # closed es"
| "closed (e # es) = closed es"

text \<open>The line printed on line 33, and the one printed on line 42.\<close>

definition pid_line :: "os \<Rightarrow> string" where
  "pid_line os = ''pid='' @ string_of_int (getpid os) @ [NL]"

definition crash_line :: string where
  "crash_line = ''Crashing as requested.'' @ [NL]"

text \<open>The lines on standard error that report a pid: those that start with \<open>pid=\<close>.\<close>

definition pid_lines :: "event list \<Rightarrow> string list" where
  "pid_lines t = filter (\<lambda>s. take 4 s = ''pid='') (stderr_lines t)"

text \<open>\<open>strlen\<close> of a buffer: the number of bytes before the first NUL.\<close>

definition strlen :: "string \<Rightarrow> nat" where
  "strlen s = length (takeWhile (\<lambda>c. c \<noteq> NUL) s)"

subsection \<open>The recursive fault generator\<close>

text \<open>
  Modelled from the spec: the body of \<open>recbomb\<close>, which is declared on line 14 and
  called in \<open>main\<close>, and defined in a file that is not part of the sources at hand.
  The specification (section 4.3) has it "call itself a fixed number of times in a
  simple countdown (from a fixed starting depth to zero)". \<open>recbomb_frames n\<close> is the
  chain of calls that \<open>recbomb(n)\<close> puts on the stack, outermost first, each named by
  its argument.
\<close>

function recbomb_frames :: "int \<Rightarrow> int list" where
  "recbomb_frames n = (if n \<le> 0 then [n] else n # recbomb_frames (n - 1))"
  by pat_completeness auto
termination
  by (relation "measure nat") auto

declare recbomb_frames.simps [simp del]

subsection \<open>Concrete environments\<close>

text \<open>
  A Linux system where every call succeeds: descriptor 3 is handed out, \<open>connect\<close>
  returns 0 and \<open>sendmsg\<close> reports one byte sent. The three variants fail in one call
  each: no descriptor left (\<open>EMFILE\<close>, 24), no socket at the path (\<open>ENOENT\<close>, 2),
  no receiver (\<open>ECONNREFUSED\<close>, 111).
\<close>

definition strerror_linux :: "errno \<Rightarrow> string" where
  "strerror_linux e =
     (if e = 2 then ''No such file or directory''
      else if e = 24 then ''Too many open files''
      else if e = 111 then ''Connection refused''
      else ''Unknown error'')"

definition linux :: os where
  "linux = \<lparr>getpid = 4242,
            socket = (\<lambda>d t p. (3, 0)),
            connect = (\<lambda>fd a n. (0, 0)),
            sendmsg = (\<lambda>fd m f. (1, 0)),
            strerror = strerror_linux,
            AF_UNIX = 1, SOCK_DGRAM = 2,
            sizeof_sun_path = 108, sizeof_sockaddr_un = 110\<rparr>"

definition linux_no_socket :: os where
  "linux_no_socket = linux\<lparr>socket := (\<lambda>d t p. (- 1, 24))\<rparr>"

definition linux_no_listener :: os where
  "linux_no_listener = linux\<lparr>connect := (\<lambda>fd a n. (- 1, 2))\<rparr>"

definition linux_send_refused :: os where
  "linux_send_refused = linux\<lparr>sendmsg := (\<lambda>fd m f. (- 1, 111))\<rparr>"

text \<open>A fault generator that ends in a fault, as a crash fixture's does.\<close>

definition bomb :: ext where
  "bomb = \<lparr>recbomb = (\<lambda>n. Fault), DefeatTailOptimizationForCrasher = 0\<rparr>"

text \<open>A fault generator that fails to crash and returns \<open>r\<close>.\<close>

definition dud :: "int \<Rightarrow> ext" where
  "dud r = \<lparr>recbomb = (\<lambda>n. Return r), DefeatTailOptimizationForCrasher = 0\<rparr>"

section \<open>Properties of SendPid\<close>

subsection \<open>Observations distribute over concatenation\<close>

lemma stderr_lines_append [simp]:
  "stderr_lines (xs @ ys) = stderr_lines xs @ stderr_lines ys"
  by (induction xs rule: stderr_lines.induct) simp_all

lemma recbomb_calls_append [simp]:
  "recbomb_calls (xs @ ys) = recbomb_calls xs @ recbomb_calls ys"
  by (induction xs rule: recbomb_calls.induct) simp_all

lemma connect_calls_append [simp]:
  "connect_calls (xs @ ys) = connect_calls xs @ connect_calls ys"
  by (induction xs rule: connect_calls.induct) simp_all

lemma transmitted_append [simp]: "transmitted (xs @ ys) = transmitted xs @ transmitted ys"
  by (induction xs rule: transmitted.induct) simp_all

lemma opened_append [simp]: "opened (xs @ ys) = opened xs @ opened ys"
  by (induction xs rule: opened.induct) simp_all

lemma closed_append [simp]: "closed (xs @ ys) = closed xs @ closed ys"
  by (induction xs rule: closed.induct) simp_all

lemma pid_lines_append [simp]: "pid_lines (xs @ ys) = pid_lines xs @ pid_lines ys"
  by (simp add: pid_lines_def)

lemma pid_lines_simps [simp]:
  "pid_lines [] = []"
  "pid_lines (Stderr s # t) = (if take 4 s = ''pid='' then s # pid_lines t else pid_lines t)"
  "pid_lines (Sys_socket d ty p r # t) = pid_lines t"
  "pid_lines (Sys_connect fd a n r # t) = pid_lines t"
  "pid_lines (Sys_sendmsg fd m f r # t) = pid_lines t"
  "pid_lines (Sys_close fd # t) = pid_lines t"
  "pid_lines (Call_recbomb k # t) = pid_lines t"
  by (simp_all add: pid_lines_def)

subsection \<open>The address and the four paths through SendPid\<close>

text \<open>
  The copy is always inside the buffer, so the address is always built: the first
  \<open>sizeof_sun_path - 1\<close> bytes are the path, cut or padded with NULs, and the bytes
  after them are the zeros of the initialisation.
\<close>

lemma SendPid_address_eq:
  "SendPid_address os path =
     Some \<lparr>sun_family = AF_UNIX os,
           sun_path = take (sizeof_sun_path os - 1) path
             @ replicate (sizeof_sun_path os - 1 - length path) NUL
             @ replicate (sizeof_sun_path os - (sizeof_sun_path os - 1)) NUL\<rparr>"
  by (simp add: SendPid_address_def strncpy_def)

text \<open>
  With the answers of the three system calls named, \<open>SendPid\<close> is one of four runs.
\<close>

lemma SendPid_eq:
  assumes "socket os (AF_UNIX os) (SOCK_DGRAM os) 0 = (fd, e0)"
    and "SendPid_address os path = Some a"
    and "connect os fd a (sizeof_sockaddr_un os) = (r1, e1)"
    and "sendmsg os fd SendPid_msg 0 = (r2, e2)"
  shows "SendPid os path =
     (if fd = - 1 then
        ([Sys_socket (AF_UNIX os) (SOCK_DGRAM os) 0 fd,
          Stderr (''socket() failed: '' @ strerror os e0 @ [NL])], Return False)
      else if r1 = - 1 then
        ([Sys_socket (AF_UNIX os) (SOCK_DGRAM os) 0 fd,
          Sys_connect fd a (sizeof_sockaddr_un os) r1,
          Stderr (''connect() failed: '' @ strerror os e1 @ [NL]),
          Sys_close fd], Return False)
      else if r2 = - 1 then
        ([Sys_socket (AF_UNIX os) (SOCK_DGRAM os) 0 fd,
          Sys_connect fd a (sizeof_sockaddr_un os) r1,
          Sys_sendmsg fd SendPid_msg 0 r2,
          Stderr (''sendmsg() failed: '' @ strerror os e2 @ [NL]),
          Sys_close fd], Return False)
      else
        ([Sys_socket (AF_UNIX os) (SOCK_DGRAM os) 0 fd,
          Sys_connect fd a (sizeof_sockaddr_un os) r1,
          Sys_sendmsg fd SendPid_msg 0 r2,
          Sys_close fd], Return True))"
  using assms
  by (simp add: SendPid_def Socket_ctor_def Socket_dtor_def SendPid_body_def)

lemma SendPid_answers:
  obtains fd e0 a r1 e1 r2 e2 where
    "socket os (AF_UNIX os) (SOCK_DGRAM os) 0 = (fd, e0)"
    "SendPid_address os path = Some a"
    "connect os fd a (sizeof_sockaddr_un os) = (r1, e1)"
    "sendmsg os fd SendPid_msg 0 = (r2, e2)"
proof -
  obtain fd e0 where 1: "socket os (AF_UNIX os) (SOCK_DGRAM os) 0 = (fd, e0)"
    by (cases "socket os (AF_UNIX os) (SOCK_DGRAM os) 0")
  obtain a where 2: "SendPid_address os path = Some a"
    by (simp add: SendPid_address_eq)
  obtain r1 e1 where 3: "connect os fd a (sizeof_sockaddr_un os) = (r1, e1)"
    by (cases "connect os fd a (sizeof_sockaddr_un os)")
  obtain r2 e2 where 4: "sendmsg os fd SendPid_msg 0 = (r2, e2)"
    by (cases "sendmsg os fd SendPid_msg 0")
  from 1 2 3 4 that show thesis by blast
qed

lemma SendPid_returns:
  "snd (SendPid os path) = Return True \<or> snd (SendPid os path) = Return False"
  by (rule SendPid_answers [of os path]) (simp add: SendPid_eq)

lemma SendPid_not_Undefined: "snd (SendPid os path) \<noteq> Undefined"
  using SendPid_returns [of os path] by auto

lemma SendPid_pid_lines: "pid_lines (fst (SendPid os path)) = []"
  by (rule SendPid_answers [of os path]) (simp add: SendPid_eq)

lemma SendPid_recbomb_calls: "recbomb_calls (fst (SendPid os path)) = []"
  by (rule SendPid_answers [of os path]) (simp add: SendPid_eq)

lemma SendPid_crash_line: "crash_line \<notin> set (stderr_lines (fst (SendPid os path)))"
  by (rule SendPid_answers [of os path]) (simp add: SendPid_eq crash_line_def)

subsection \<open>SendPid in the concrete environments\<close>

lemmas SendPid_unfold =
  SendPid_def Socket_ctor_def Socket_dtor_def SendPid_body_def SendPid_address_eq

lemma SendPid_linux: "snd (SendPid linux p) = Return True"
  by (simp add: SendPid_unfold linux_def)

lemma SendPid_linux_no_socket: "snd (SendPid linux_no_socket p) = Return False"
  by (simp add: SendPid_unfold linux_no_socket_def linux_def)

lemma SendPid_linux_no_listener: "snd (SendPid linux_no_listener p) = Return False"
  by (simp add: SendPid_unfold linux_no_listener_def linux_def)

lemma SendPid_linux_send_refused: "snd (SendPid linux_send_refused p) = Return False"
  by (simp add: SendPid_unfold linux_send_refused_def linux_def)

lemma pid_line_linux: "pid_line linux = ''pid=4242'' @ [NL]"
  by (simp add: pid_line_def linux_def string_of_int_def string_of_nat.simps)

subsection \<open>Return value, diagnostics and the datagram\<close>

text \<open>
  C4. \<open>SendPid\<close> returns true if and only if \<open>socket\<close>, \<open>connect\<close> and
  \<open>sendmsg\<close> all succeed (none returns \<open>-1\<close>), and then exactly one datagram goes
  out, of exactly one byte, the byte 0x00, and nothing is printed. When \<open>socket\<close>
  fails, when \<open>connect\<close> fails and when \<open>sendmsg\<close> fails, it returns false after
  printing exactly one line, which holds the \<open>strerror\<close> text of the \<open>errno\<close> that call
  left, and no datagram goes out: after a failed \<open>socket\<close> there is no \<open>connect\<close>
  and no \<open>sendmsg\<close>, after a failed \<open>connect\<close> no \<open>sendmsg\<close>, and a failed
  \<open>sendmsg\<close> is not tried again.
\<close>

theorem SendPid_result:
  assumes "socket os (AF_UNIX os) (SOCK_DGRAM os) 0 = (fd, e0)"
    and "SendPid_address os path = Some a"
    and "connect os fd a (sizeof_sockaddr_un os) = (r1, e1)"
    and "sendmsg os fd SendPid_msg 0 = (r2, e2)"
  shows "(snd (SendPid os path) = Return True) = (fd \<noteq> - 1 \<and> r1 \<noteq> - 1 \<and> r2 \<noteq> - 1)
    \<and> (snd (SendPid os path) = Return False) = (fd = - 1 \<or> r1 = - 1 \<or> r2 = - 1)
    \<and> (fd \<noteq> - 1 \<and> r1 \<noteq> - 1 \<and> r2 \<noteq> - 1 \<longrightarrow>
          transmitted (fst (SendPid os path)) = [[NUL]]
        \<and> sendmsg_calls (fst (SendPid os path)) = [(fd, SendPid_msg, 0, r2)]
        \<and> stderr_lines (fst (SendPid os path)) = [])
    \<and> (fd = - 1 \<longrightarrow>
          stderr_lines (fst (SendPid os path)) = [''socket() failed: '' @ strerror os e0 @ [NL]]
        \<and> connect_calls (fst (SendPid os path)) = []
        \<and> sendmsg_calls (fst (SendPid os path)) = []
        \<and> transmitted (fst (SendPid os path)) = [])
    \<and> (fd \<noteq> - 1 \<and> r1 = - 1 \<longrightarrow>
          stderr_lines (fst (SendPid os path)) = [''connect() failed: '' @ strerror os e1 @ [NL]]
        \<and> sendmsg_calls (fst (SendPid os path)) = []
        \<and> transmitted (fst (SendPid os path)) = [])
    \<and> (fd \<noteq> - 1 \<and> r1 \<noteq> - 1 \<and> r2 = - 1 \<longrightarrow>
          stderr_lines (fst (SendPid os path)) = [''sendmsg() failed: '' @ strerror os e2 @ [NL]]
        \<and> sendmsg_calls (fst (SendPid os path)) = [(fd, SendPid_msg, 0, - 1)]
        \<and> transmitted (fst (SendPid os path)) = [])"
  by (simp add: SendPid_eq [OF assms] SendPid_msg_def)

lemma crasher_sock_address:
  "SendPid_address os ''/tmp/crasher.sock'' =
     Some \<lparr>sun_family = AF_UNIX os,
           sun_path = take (sizeof_sun_path os - 1) ''/tmp/crasher.sock''
             @ replicate (sizeof_sun_path os - 1 - length ''/tmp/crasher.sock'') NUL
             @ replicate (sizeof_sun_path os - (sizeof_sun_path os - 1)) NUL\<rparr>"
  by (rule SendPid_address_eq)

theorem SendPid_result_witness:
  "snd (SendPid linux ''/tmp/crasher.sock'') = Return True
   \<and> transmitted (fst (SendPid linux ''/tmp/crasher.sock'')) = [[NUL]]
   \<and> snd (SendPid linux_no_socket ''/tmp/crasher.sock'') = Return False
   \<and> stderr_lines (fst (SendPid linux_no_socket ''/tmp/crasher.sock''))
       = [''socket() failed: Too many open files'' @ [NL]]
   \<and> snd (SendPid linux_no_listener ''/tmp/crasher.sock'') = Return False
   \<and> stderr_lines (fst (SendPid linux_no_listener ''/tmp/crasher.sock''))
       = [''connect() failed: No such file or directory'' @ [NL]]
   \<and> snd (SendPid linux_send_refused ''/tmp/crasher.sock'') = Return False
   \<and> stderr_lines (fst (SendPid linux_send_refused ''/tmp/crasher.sock''))
       = [''sendmsg() failed: Connection refused'' @ [NL]]
   \<and> transmitted (fst (SendPid linux_send_refused ''/tmp/crasher.sock'')) = []"
  using SendPid_result
      [where os = linux and path = "''/tmp/crasher.sock''" and fd = 3 and ?e0.0 = 0
        and ?r1.0 = 0 and ?e1.0 = 0 and ?r2.0 = 1 and ?e2.0 = 0, OF _ crasher_sock_address]
    SendPid_result
      [where os = linux_no_socket and path = "''/tmp/crasher.sock''" and fd = "- 1"
        and ?e0.0 = 24 and ?r1.0 = 0 and ?e1.0 = 0 and ?r2.0 = 1 and ?e2.0 = 0,
        OF _ crasher_sock_address]
    SendPid_result
      [where os = linux_no_listener and path = "''/tmp/crasher.sock''" and fd = 3
        and ?e0.0 = 0 and ?r1.0 = "- 1" and ?e1.0 = 2 and ?r2.0 = 1 and ?e2.0 = 0,
        OF _ crasher_sock_address]
    SendPid_result
      [where os = linux_send_refused and path = "''/tmp/crasher.sock''" and fd = 3
        and ?e0.0 = 0 and ?r1.0 = 0 and ?e1.0 = 0 and ?r2.0 = "- 1" and ?e2.0 = 111,
        OF _ crasher_sock_address]
  by (simp add: linux_def linux_no_socket_def linux_no_listener_def linux_send_refused_def
      strerror_linux_def)

subsection \<open>The socket descriptor\<close>

text \<open>
  C7. On every path through \<open>SendPid\<close> the descriptor that \<open>socket\<close> returned is
  closed exactly once when it was opened, and \<open>close\<close> is not called at all when
  \<open>socket\<close> failed. The \<open>close\<close> is the last thing \<open>SendPid\<close> does: nothing
  before the final event is a \<open>close\<close>.
\<close>

theorem socket_closed_exactly_once:
  "opened (fst (SendPid os path)) =
     (if fst (socket os (AF_UNIX os) (SOCK_DGRAM os) 0) = - 1 then []
      else [fst (socket os (AF_UNIX os) (SOCK_DGRAM os) 0)])
   \<and> closed (fst (SendPid os path)) = opened (fst (SendPid os path))
   \<and> closed (butlast (fst (SendPid os path))) = []"
  by (rule SendPid_answers [of os path]) (simp add: SendPid_eq)

subsection \<open>The path buffer\<close>

lemma strlen_terminated: "strlen (xs @ NUL # ys) \<le> length xs"
  by (induction xs) (simp_all add: strlen_def)

lemma takeWhile_terminated:
  "NUL \<notin> set xs \<Longrightarrow> takeWhile (\<lambda>c. c \<noteq> NUL) (xs @ NUL # ys) = xs"
  by (induction xs) auto

lemma strlen_padded: "strlen (xs @ replicate m NUL @ [NUL]) \<le> length xs"
  unfolding replicate_append_same by (rule strlen_terminated)

lemma takeWhile_padded:
  "NUL \<notin> set xs \<Longrightarrow> takeWhile (\<lambda>c. c \<noteq> NUL) (xs @ replicate m NUL @ [NUL]) = xs"
  unfolding replicate_append_same by (rule takeWhile_terminated)

text \<open>
  C10. For every path, also one longer than the buffer, the address \<open>SendPid\<close>
  builds has in \<open>sun_path\<close> the first \<open>sizeof(sun_path) - 1\<close> bytes of the path
  (fewer when the path is shorter, then padded with NULs) followed by the NUL the
  initialisation left in the last byte: the buffer keeps its size, the string in it is
  at most \<open>sizeof(sun_path) - 1\<close> bytes long and is the path cut to that length, and
  the copy stays inside the buffer (\<open>strncpy\<close> is defined, \<open>SendPid\<close> never ends
  in undefined behaviour).
\<close>

theorem sun_path_truncated_and_terminated:
  assumes "0 < sizeof_sun_path os"
  shows "SendPid_address os path =
           Some \<lparr>sun_family = AF_UNIX os,
                 sun_path = take (sizeof_sun_path os - 1) path
                   @ replicate (sizeof_sun_path os - 1 - length path) NUL @ [NUL]\<rparr>
       \<and> length (take (sizeof_sun_path os - 1) path
                   @ replicate (sizeof_sun_path os - 1 - length path) NUL @ [NUL])
           = sizeof_sun_path os
       \<and> strlen (take (sizeof_sun_path os - 1) path
                   @ replicate (sizeof_sun_path os - 1 - length path) NUL @ [NUL])
           \<le> sizeof_sun_path os - 1
       \<and> (NUL \<notin> set path \<longrightarrow>
            takeWhile (\<lambda>c. c \<noteq> NUL)
              (take (sizeof_sun_path os - 1) path
                 @ replicate (sizeof_sun_path os - 1 - length path) NUL @ [NUL])
            = take (sizeof_sun_path os - 1) path)
       \<and> strncpy (replicate (sizeof_sun_path os) NUL) path (sizeof_sun_path os - 1) \<noteq> None
       \<and> snd (SendPid os path) \<noteq> Undefined"
proof -
  let ?n = "sizeof_sun_path os"
  let ?buf = "take (?n - 1) path @ replicate (?n - 1 - length path) NUL @ [NUL]"
  have one: "?n - (?n - Suc 0) = Suc 0"
    using assms by simp
  have addr: "SendPid_address os path = Some \<lparr>sun_family = AF_UNIX os, sun_path = ?buf\<rparr>"
    by (simp add: SendPid_address_eq one)
  have len: "length ?buf = ?n"
    using assms by auto
  have "strlen ?buf \<le> length (take (?n - 1) path)"
    by (rule strlen_padded)
  then have str: "strlen ?buf \<le> ?n - 1"
    by simp
  have cstr: "takeWhile (\<lambda>c. c \<noteq> NUL) ?buf = take (?n - 1) path" if "NUL \<notin> set path"
  proof -
    have "NUL \<notin> set (take (?n - 1) path)"
      using that by (meson in_set_takeD)
    then show ?thesis
      by (rule takeWhile_padded)
  qed
  have cpy: "strncpy (replicate ?n NUL) path (?n - 1) \<noteq> None"
    by (simp add: strncpy_def)
  from addr len str cstr cpy SendPid_not_Undefined [of os path] show ?thesis
    by blast
qed

theorem sun_path_truncated_and_terminated_witness:
  "0 < sizeof_sun_path linux
   \<and> SendPid_address linux (replicate 200 CHR ''a'') =
       Some \<lparr>sun_family = 1, sun_path = replicate 107 CHR ''a'' @ [NUL]\<rparr>
   \<and> strlen (replicate 107 CHR ''a'' @ [NUL]) \<le> 107
   \<and> SendPid_address linux ''/tmp/crasher.sock'' =
       Some \<lparr>sun_family = 1, sun_path = ''/tmp/crasher.sock'' @ replicate 90 NUL @ [NUL]\<rparr>
   \<and> takeWhile (\<lambda>c. c \<noteq> NUL) (''/tmp/crasher.sock'' @ replicate 90 NUL @ [NUL])
       = ''/tmp/crasher.sock''"
  using sun_path_truncated_and_terminated [where os = linux and path = "replicate 200 CHR ''a''"]
    sun_path_truncated_and_terminated [where os = linux and path = "''/tmp/crasher.sock''"]
  by (simp add: linux_def)

section \<open>Properties of mode selection\<close>

subsection \<open>String comparison\<close>

lemma of_char_eq_0_iff: "(of_char c = (0::nat)) = (c = NUL)"
proof -
  have "of_char NUL = (0::nat)" by simp
  then have "(of_char c = (0::nat)) = (of_char c = (of_char NUL :: nat))" by simp
  then show ?thesis by (simp only: of_char_eq_iff)
qed

text \<open>On C strings, which hold no NUL, \<open>strcmp\<close> returns 0 exactly for equal strings.\<close>

lemma strcmp_eq_0_iff:
  "NUL \<notin> set a \<Longrightarrow> NUL \<notin> set b \<Longrightarrow> (strcmp a b = 0) = (a = b)"
proof (induction a b rule: strcmp.induct)
  case 1
  then show ?case by simp
next
  case (2 b bs)
  then show ?case by (auto simp add: of_char_eq_0_iff)
next
  case (3 a as)
  then show ?case by (auto simp add: of_char_eq_0_iff)
next
  case (4 a as b bs)
  then show ?case by auto
qed

lemma strcmp_nocrash: "NUL \<notin> set a \<Longrightarrow> (strcmp a ''--nocrash'' = 0) = (a = ''--nocrash'')"
  by (rule strcmp_eq_0_iff) simp_all

lemma strcmp_sendpid: "NUL \<notin> set a \<Longrightarrow> (strcmp a ''--sendpid'' = 0) = (a = ''--sendpid'')"
  by (rule strcmp_eq_0_iff) simp_all

subsection \<open>The three branches of PrepareBelow\<close>

lemma fst_crasher: "fst (crasher x os argv) = fst (main x os (int (length argv)) argv)"
  by (simp add: crasher_def split: prod.splits)

lemma snd_crasher:
  "snd (crasher x os argv) = process_end (snd (main x os (int (length argv)) argv))"
  by (simp add: crasher_def split: prod.splits)

lemma crasher_eq:
  "crasher x os argv =
     (fst (main x os (int (length argv)) argv),
      process_end (snd (main x os (int (length argv)) argv)))"
  by (simp add: crasher_def split: prod.splits)

lemma PrepareBelow_cases:
  "PrepareBelow os argc argv =
     (if argc = 2 \<and> strcmp (argv ! 1) ''--nocrash'' = 0 then
        ([Stderr (pid_line os), Stderr (''Doing normal exit'' @ [NL])], Exit 0)
      else if argc = 3 \<and> strcmp (argv ! 1) ''--sendpid'' = 0 then
        if snd (SendPid os (argv ! 2)) = Return True
        then (Stderr (pid_line os) # fst (SendPid os (argv ! 2)) @ [Stderr crash_line], Return ())
        else (Stderr (pid_line os) # fst (SendPid os (argv ! 2)), Exit 0)
      else ([Stderr (pid_line os), Stderr crash_line], Return ()))"
  using SendPid_returns [of os "argv ! 2"]
  by (cases "SendPid os (argv ! 2)")
     (auto simp add: PrepareBelow_def pid_line_def crash_line_def)

lemma PrepareBelow_sendpid:
  "PrepareBelow os 3 [prog, ''--sendpid'', path] =
     (if snd (SendPid os path) = Return True
      then (Stderr (pid_line os) # fst (SendPid os path) @ [Stderr crash_line], Return ())
      else (Stderr (pid_line os) # fst (SendPid os path), Exit 0))"
  by (simp add: PrepareBelow_cases)

lemma crash_path:
  "\<not> (argc = 2 \<and> strcmp (argv ! 1) ''--nocrash'' = 0) \<Longrightarrow>
   \<not> (argc = 3 \<and> strcmp (argv ! 1) ''--sendpid'' = 0) \<Longrightarrow>
   fst (main x os argc argv) = [Stderr (pid_line os), Stderr crash_line, Call_recbomb 16]"
  by (auto simp add: main_def PrepareBelow_cases)

text \<open>One complete run: a successful pid handoff on the Linux environment.\<close>

lemma crasher_sendpid_linux:
  "crasher bomb linux [''crasher'', ''--sendpid'', ''/tmp/crasher.sock''] =
     ([Stderr (''pid=4242'' @ [NL]),
       Sys_socket 1 2 0 3,
       Sys_connect 3
         \<lparr>sun_family = 1, sun_path = ''/tmp/crasher.sock'' @ replicate 90 NUL @ [NUL]\<rparr> 110 0,
       Sys_sendmsg 3 SendPid_msg 0 1,
       Sys_close 3,
       Stderr (''Crashing as requested.'' @ [NL]),
       Call_recbomb 16],
      Fault)"
proof -
  have "SendPid linux ''/tmp/crasher.sock'' =
     ([Sys_socket 1 2 0 3,
       Sys_connect 3
         \<lparr>sun_family = 1, sun_path = ''/tmp/crasher.sock'' @ replicate 90 NUL @ [NUL]\<rparr> 110 0,
       Sys_sendmsg 3 SendPid_msg 0 1,
       Sys_close 3],
      Return True)"
    by (simp add: SendPid_unfold linux_def)
  then show ?thesis
    by (simp add: crasher_eq process_end_def main_def PrepareBelow_sendpid pid_line_linux crash_line_def
        bomb_def)
qed

subsection \<open>The no-crash mode\<close>

text \<open>
  C5. With the single argument \<open>--nocrash\<close> the process prints its pid line, then the
  normal-exit diagnostic, and exits with status 0; the recursive fault generator is not
  invoked.
\<close>

theorem nocrash_exits_zero:
  "crasher x os [prog, ''--nocrash''] =
     ([Stderr (pid_line os), Stderr (''Doing normal exit'' @ [NL])], Exit 0)
   \<and> recbomb_calls (fst (crasher x os [prog, ''--nocrash''])) = []"
  by (simp add: crasher_eq process_end_def main_def PrepareBelow_cases)

subsection \<open>The send-pid mode\<close>

text \<open>
  C2. For \<open>--sendpid <path>\<close> where \<open>SendPid\<close> succeeds, control falls through the
  mode selection: \<open>PrepareBelow\<close> prints "Crashing as requested." after the pid line
  and the socket traffic and returns instead of exiting, and \<open>main\<close> then invokes
  the recursive fault generator.
\<close>

theorem sendpid_success_falls_through:
  assumes "snd (SendPid os path) = Return True"
  shows "PrepareBelow os 3 [prog, ''--sendpid'', path] =
           (Stderr (pid_line os) # fst (SendPid os path) @ [Stderr crash_line], Return ())
       \<and> fst (crasher x os [prog, ''--sendpid'', path]) =
           Stderr (pid_line os) # fst (SendPid os path) @ [Stderr crash_line, Call_recbomb 16]"
  using assms by (simp add: crasher_eq process_end_def main_def PrepareBelow_sendpid)

theorem sendpid_success_falls_through_witness:
  "snd (SendPid linux ''/tmp/crasher.sock'') = Return True
   \<and> fst (crasher bomb linux [''crasher'', ''--sendpid'', ''/tmp/crasher.sock'']) =
       Stderr (pid_line linux) # fst (SendPid linux ''/tmp/crasher.sock'')
         @ [Stderr crash_line, Call_recbomb 16]"
  using sendpid_success_falls_through
      [where os = linux and path = "''/tmp/crasher.sock''" and prog = "''crasher''" and x = bomb]
    SendPid_linux [of "''/tmp/crasher.sock''"]
  by simp

text \<open>
  C1, as stated, fails: on the Linux environment, where \<open>SendPid\<close> succeeds, and
  with a fault generator that faults, the process does not exit with status 0; it
  prints "Crashing as requested." and invokes the recursive fault generator.
\<close>

theorem sendpid_success_exit_counterexample:
  "\<not> (snd (SendPid linux ''/tmp/crasher.sock'') = Return True \<longrightarrow>
        snd (crasher bomb linux [''crasher'', ''--sendpid'', ''/tmp/crasher.sock'']) = Exit 0
        \<and> crash_line \<notin> set (stderr_lines
             (fst (crasher bomb linux [''crasher'', ''--sendpid'', ''/tmp/crasher.sock''])))
        \<and> recbomb_calls
             (fst (crasher bomb linux [''crasher'', ''--sendpid'', ''/tmp/crasher.sock''])) = [])"
  by (simp add: crasher_sendpid_linux SendPid_linux)

text \<open>
  C1, amended. For \<open>--sendpid <path>\<close> where \<open>SendPid\<close> succeeds, the process does
  not exit in the mode selection: \<open>PrepareBelow\<close> returns to \<open>main\<close>, the last line
  printed is "Crashing as requested.", and the recursive fault generator is invoked
  once, with depth 16. The process then ends as the call \<open>recbomb(16)\<close> ends: by a
  fault when the call faults; with the low eight bits of \<open>s\<close> as its status when
  the call ends in \<open>exit(s)\<close>; and when the call returns \<open>r\<close>, with the low eight
  bits of \<open>r + DefeatTailOptimizationForCrasher()\<close> as its status, which \<open>main\<close>
  returns (undefined behaviour when that sum does not fit an \<open>int\<close>).
\<close>

theorem sendpid_success_reaches_crash_path:
  assumes "snd (SendPid os path) = Return True"
  shows "snd (PrepareBelow os 3 [prog, ''--sendpid'', path]) = Return ()
       \<and> last (stderr_lines (fst (crasher x os [prog, ''--sendpid'', path]))) = crash_line
       \<and> recbomb_calls (fst (crasher x os [prog, ''--sendpid'', path])) = [16]
       \<and> snd (crasher x os [prog, ''--sendpid'', path]) =
           (case recbomb x 16 of
              Return r \<Rightarrow>
                if INT_MIN \<le> r + DefeatTailOptimizationForCrasher x
                   \<and> r + DefeatTailOptimizationForCrasher x \<le> INT_MAX
                then Exit ((r + DefeatTailOptimizationForCrasher x) mod 256)
                else Undefined
            | Exit s \<Rightarrow> Exit (s mod 256)
            | Fault \<Rightarrow> Fault
            | Undefined \<Rightarrow> Undefined)"
  using assms SendPid_recbomb_calls [of os path]
  by (simp add: crasher_eq process_end_def main_def int_add_def PrepareBelow_sendpid
      split: ctl.splits)

theorem sendpid_success_reaches_crash_path_witness:
  "snd (SendPid linux ''/tmp/crasher.sock'') = Return True
   \<and> snd (PrepareBelow linux 3 [''crasher'', ''--sendpid'', ''/tmp/crasher.sock'']) = Return ()
   \<and> recbomb_calls (fst (crasher bomb linux [''crasher'', ''--sendpid'', ''/tmp/crasher.sock'']))
       = [16]
   \<and> snd (crasher bomb linux [''crasher'', ''--sendpid'', ''/tmp/crasher.sock'']) = Fault
   \<and> snd (crasher (dud 300) linux [''crasher'', ''--sendpid'', ''/tmp/crasher.sock''])
       = Exit 44
   \<and> snd (crasher (dud 0) linux [''crasher'', ''--sendpid'', ''/tmp/crasher.sock''])
       = Exit 0
   \<and> snd (crasher (dud INT_MAX) linux [''crasher'', ''--sendpid'', ''/tmp/crasher.sock''])
       = Exit 255"
  using sendpid_success_reaches_crash_path
      [where os = linux and path = "''/tmp/crasher.sock''" and prog = "''crasher''" and x = bomb]
    sendpid_success_reaches_crash_path
      [where os = linux and path = "''/tmp/crasher.sock''" and prog = "''crasher''"
        and x = "dud 300"]
    sendpid_success_reaches_crash_path
      [where os = linux and path = "''/tmp/crasher.sock''" and prog = "''crasher''"
        and x = "dud 0"]
    sendpid_success_reaches_crash_path
      [where os = linux and path = "''/tmp/crasher.sock''" and prog = "''crasher''"
        and x = "dud INT_MAX"]
    SendPid_linux [of "''/tmp/crasher.sock''"]
  by (simp add: bomb_def dud_def INT_MIN_def INT_MAX_def)

text \<open>
  C3. For \<open>--sendpid <path>\<close> where \<open>SendPid\<close> returns false (whichever of the
  three calls failed), the process exits with status 0 right after \<open>SendPid\<close>:
  nothing is printed or done after it, "Crashing as requested." is not printed, and the
  recursive fault generator is not invoked.
\<close>

theorem sendpid_failure_exits_zero:
  assumes "snd (SendPid os path) = Return False"
  shows "crasher x os [prog, ''--sendpid'', path] =
           (Stderr (pid_line os) # fst (SendPid os path), Exit 0)
       \<and> crash_line \<notin> set (stderr_lines (fst (crasher x os [prog, ''--sendpid'', path])))
       \<and> recbomb_calls (fst (crasher x os [prog, ''--sendpid'', path])) = []"
proof -
  have run: "crasher x os [prog, ''--sendpid'', path] =
      (Stderr (pid_line os) # fst (SendPid os path), Exit 0)"
    using assms by (simp add: crasher_eq process_end_def main_def PrepareBelow_sendpid)
  have "crash_line \<noteq> pid_line os"
    by (simp add: crash_line_def pid_line_def)
  with run SendPid_recbomb_calls [of os path] SendPid_crash_line [of os path]
  show ?thesis by simp
qed

theorem sendpid_failure_exits_zero_witness:
  "snd (SendPid linux_no_socket ''/tmp/crasher.sock'') = Return False
   \<and> snd (crasher bomb linux_no_socket [''crasher'', ''--sendpid'', ''/tmp/crasher.sock''])
       = Exit 0
   \<and> snd (SendPid linux_no_listener ''/tmp/crasher.sock'') = Return False
   \<and> snd (crasher bomb linux_no_listener [''crasher'', ''--sendpid'', ''/tmp/crasher.sock''])
       = Exit 0
   \<and> snd (SendPid linux_send_refused ''/tmp/crasher.sock'') = Return False
   \<and> snd (crasher bomb linux_send_refused [''crasher'', ''--sendpid'', ''/tmp/crasher.sock''])
       = Exit 0"
  using sendpid_failure_exits_zero
      [where os = linux_no_socket and path = "''/tmp/crasher.sock''" and prog = "''crasher''"
        and x = bomb]
    sendpid_failure_exits_zero
      [where os = linux_no_listener and path = "''/tmp/crasher.sock''" and prog = "''crasher''"
        and x = bomb]
    sendpid_failure_exits_zero
      [where os = linux_send_refused and path = "''/tmp/crasher.sock''" and prog = "''crasher''"
        and x = bomb]
    SendPid_linux_no_socket [of "''/tmp/crasher.sock''"]
    SendPid_linux_no_listener [of "''/tmp/crasher.sock''"]
    SendPid_linux_send_refused [of "''/tmp/crasher.sock''"]
  by simp

subsection \<open>The pid line\<close>

lemma main_pid_line:
  "fst (main x os argc argv) = Stderr (pid_line os) # tl (fst (main x os argc argv))
   \<and> pid_lines (tl (fst (main x os argc argv))) = []"
  by (simp add: main_def PrepareBelow_cases SendPid_pid_lines crash_line_def)

text \<open>
  C6. Whatever the arguments and whatever the system calls answer, the first thing the
  process does is to print the pid line, and no later line on standard error reports a
  pid: the pid line is printed exactly once, before any other output.
\<close>

theorem pid_line_first_and_once:
  "fst (crasher x os argv) = Stderr (pid_line os) # tl (fst (crasher x os argv))
   \<and> pid_lines (tl (fst (crasher x os argv))) = []
   \<and> pid_lines (fst (crasher x os argv)) = [pid_line os]"
proof -
  have first: "fst (crasher x os argv) = Stderr (pid_line os) # tl (fst (crasher x os argv))"
    and rest: "pid_lines (tl (fst (crasher x os argv))) = []"
    using main_pid_line [of x os "int (length argv)" argv] by (simp_all add: fst_crasher)
  have "pid_lines (Stderr (pid_line os) # tl (fst (crasher x os argv))) = [pid_line os]"
    using rest by (simp add: pid_line_def)
  with first rest show ?thesis by simp
qed

subsection \<open>The crash path\<close>

lemma recbomb_frames_16:
  "recbomb_frames 16 = [16, 15, 14, 13, 12, 11, 10, 9, 8, 7, 6, 5, 4, 3, 2, 1, 0]"
  by (simp add: recbomb_frames.simps)

text \<open>
  C8. The default mode invokes the recursive fault generator exactly once and always
  with the starting depth 16: two runs, under any two environments and program names,
  make the same call and end the same way. By the specification's countdown the call
  puts the seventeen frames 16, 15, ..., 0 on the stack in both.
\<close>

theorem default_depth_fixed:
  "recbomb_calls (fst (crasher x os1 [prog1])) = [16]
   \<and> recbomb_calls (fst (crasher x os2 [prog2])) = [16]
   \<and> snd (crasher x os1 [prog1]) = snd (crasher x os2 [prog2])
   \<and> map recbomb_frames (recbomb_calls (fst (crasher x os1 [prog1]))) =
       [[16, 15, 14, 13, 12, 11, 10, 9, 8, 7, 6, 5, 4, 3, 2, 1, 0]]
   \<and> map recbomb_frames (recbomb_calls (fst (crasher x os2 [prog2]))) =
       map recbomb_frames (recbomb_calls (fst (crasher x os1 [prog1])))"
  by (simp add: crasher_eq process_end_def main_def PrepareBelow_cases recbomb_frames_16)

text \<open>
  C9. The modes are matched on the exact number of arguments and on the first
  argument: \<open>--sendpid\<close> followed by no argument or by more than one,
  \<open>--nocrash\<close> followed by anything, any other first argument, and no argument at
  all lead to the crash path: the pid line, "Crashing as requested.", and the call of
  the recursive fault generator, nothing else.
\<close>

theorem unmatched_arguments_crash:
  "(length rest \<noteq> 1 \<longrightarrow>
      fst (crasher x os (prog # ''--sendpid'' # rest)) =
        [Stderr (pid_line os), Stderr crash_line, Call_recbomb 16])
   \<and> (rest \<noteq> [] \<longrightarrow>
      fst (crasher x os (prog # ''--nocrash'' # rest)) =
        [Stderr (pid_line os), Stderr crash_line, Call_recbomb 16])
   \<and> (NUL \<notin> set a \<and> a \<noteq> ''--nocrash'' \<and> a \<noteq> ''--sendpid'' \<longrightarrow>
      fst (crasher x os (prog # a # rest)) =
        [Stderr (pid_line os), Stderr crash_line, Call_recbomb 16])
   \<and> fst (crasher x os [prog]) = [Stderr (pid_line os), Stderr crash_line, Call_recbomb 16]"
proof (intro conjI impI)
  assume "length rest \<noteq> 1"
  then show "fst (crasher x os (prog # ''--sendpid'' # rest)) =
      [Stderr (pid_line os), Stderr crash_line, Call_recbomb 16]"
    unfolding fst_crasher by (intro crash_path) (simp_all add: strcmp_nocrash)
next
  assume "rest \<noteq> []"
  then show "fst (crasher x os (prog # ''--nocrash'' # rest)) =
      [Stderr (pid_line os), Stderr crash_line, Call_recbomb 16]"
    unfolding fst_crasher by (intro crash_path) (simp_all add: strcmp_sendpid)
next
  assume "NUL \<notin> set a \<and> a \<noteq> ''--nocrash'' \<and> a \<noteq> ''--sendpid''"
  then show "fst (crasher x os (prog # a # rest)) =
      [Stderr (pid_line os), Stderr crash_line, Call_recbomb 16]"
    unfolding fst_crasher by (intro crash_path) (simp_all add: strcmp_nocrash strcmp_sendpid)
next
  show "fst (crasher x os [prog]) = [Stderr (pid_line os), Stderr crash_line, Call_recbomb 16]"
    unfolding fst_crasher by (intro crash_path) simp_all
qed

theorem unmatched_arguments_crash_witness:
  "fst (crasher bomb linux [''crasher'', ''--sendpid'']) =
     [Stderr (pid_line linux), Stderr crash_line, Call_recbomb 16]
   \<and> fst (crasher bomb linux [''crasher'', ''--sendpid'', ''/tmp/crasher.sock'', ''extra'']) =
     [Stderr (pid_line linux), Stderr crash_line, Call_recbomb 16]
   \<and> fst (crasher bomb linux [''crasher'', ''--nocrash'', ''extra'']) =
     [Stderr (pid_line linux), Stderr crash_line, Call_recbomb 16]
   \<and> fst (crasher bomb linux [''crasher'', ''--help'']) =
     [Stderr (pid_line linux), Stderr crash_line, Call_recbomb 16]"
  using unmatched_arguments_crash
      [where x = bomb and os = linux and prog = "''crasher''" and rest = "[]"
        and a = "''--help''"]
    unmatched_arguments_crash
      [where x = bomb and os = linux and prog = "''crasher''"
        and rest = "[''/tmp/crasher.sock'', ''extra'']" and a = "''--help''"]
    unmatched_arguments_crash
      [where x = bomb and os = linux and prog = "''crasher''" and rest = "[''extra'']"
        and a = "''--help''"]
  by simp

end
